theory Spec2Isabelle
  imports Complex_Main
begin

section \<open>Numbers and the arithmetic of the host\<close>

text \<open>
  A JavaScript number is an IEEE double: a finite value, which is a real number
  (\<open>Num 0\<close> is the zero \<open>+0\<close>), the zero \<open>-0\<close>, one of the two infinities, or NaN.
\<close>

datatype number = Num real | MinusZero | PlusInfinity | MinusInfinity | NaN

text \<open>
  The operator \<open><\<close> on numbers: the order of the values, the two zeros being
  equal, and false as soon as one side is NaN.
\<close>

fun num_lt :: "number \<Rightarrow> number \<Rightarrow> bool" where
  "num_lt (Num a) (Num b) = (a < b)"
| "num_lt (Num a) MinusZero = (a < 0)"
| "num_lt MinusZero (Num b) = (0 < b)"
| "num_lt (Num a) PlusInfinity = True"
| "num_lt MinusZero PlusInfinity = True"
| "num_lt MinusInfinity (Num b) = True"
| "num_lt MinusInfinity MinusZero = True"
| "num_lt MinusInfinity PlusInfinity = True"
| "num_lt _ _ = False"

text \<open>
  The operations the host computes in doubles, each with its own rounding: the
  operators \<open>+\<close>, \<open>-\<close>, \<open>*\<close> and \<open>/\<close>, the functions \<open>Math.sin\<close>, \<open>Math.cos\<close>,
  \<open>Math.sqrt\<close> and \<open>Math.atan2\<close>, the constant \<open>Math.PI\<close>, and the value of a decimal
  literal that is not an integer (\<open>1.3\<close>). They are parameters of the program: the
  definitions below apply them where the source does and assume nothing about the
  values they return. A literal that is an integer is the number \<open>Num\<close> of it, and
  \<open>Infinity\<close> is \<open>PlusInfinity\<close>.
\<close>

record arith =
  num_add :: "number \<Rightarrow> number \<Rightarrow> number"
  num_sub :: "number \<Rightarrow> number \<Rightarrow> number"
  num_mul :: "number \<Rightarrow> number \<Rightarrow> number"
  num_div :: "number \<Rightarrow> number \<Rightarrow> number"
  math_sin :: "number \<Rightarrow> number"
  math_cos :: "number \<Rightarrow> number"
  math_sqrt :: "number \<Rightarrow> number"
  math_atan2 :: "number \<Rightarrow> number \<Rightarrow> number"
  math_PI :: number
  decimal :: "real \<Rightarrow> number"

section \<open>Geo-math utility (routing service in services/database.js: haversineDistance, toRad)\<close>

text \<open>
  A coordinate is the two-element array \<open>[lat, lng]\<close> of the source: \<open>point[0]\<close> is
  \<open>fst\<close> and \<open>point[1]\<close> is \<open>snd\<close>.
\<close>

type_synonym coord = "number \<times> number"

definition toRad :: "arith \<Rightarrow> number \<Rightarrow> number" where
  "toRad ar deg = num_mul ar deg (num_div ar (math_PI ar) (Num 180))"

definition haversineDistance :: "arith \<Rightarrow> coord \<Rightarrow> coord \<Rightarrow> number" where
  "haversineDistance ar point1 point2 =
     (let R = Num 6371;
          dLat = toRad ar (num_sub ar (fst point2) (fst point1));
          dLon = toRad ar (num_sub ar (snd point2) (snd point1));
          a = num_add ar
                (num_mul ar (math_sin ar (num_div ar dLat (Num 2)))
                            (math_sin ar (num_div ar dLat (Num 2))))
                (num_mul ar
                  (num_mul ar
                    (num_mul ar (math_cos ar (toRad ar (fst point1)))
                                (math_cos ar (toRad ar (fst point2))))
                    (math_sin ar (num_div ar dLon (Num 2))))
                  (math_sin ar (num_div ar dLon (Num 2))));
          c = num_mul ar (Num 2)
                (math_atan2 ar (math_sqrt ar a) (math_sqrt ar (num_sub ar (Num 1) a)))
      in num_mul ar R c)"

section \<open>Route calculator (routing service: calculateRoute, calculateFallbackRoute)\<close>

text \<open>
  The table \<open>TransportModes\<close>: an object indexed by the mode's name. The average
  speeds are the integer literals of the source.
\<close>

record transport_mode =
  mode_id :: string
  mode_name :: string
  profile :: string
  icon :: string
  avgSpeed :: real

definition TransportModes :: "string \<Rightarrow> transport_mode option" where
  "TransportModes =
     [''driving'' \<mapsto> \<lparr>mode_id = ''driving'', mode_name = ''En coche'',
                       profile = ''driving'', icon = ''car'', avgSpeed = 80\<rparr>,
      ''cycling'' \<mapsto> \<lparr>mode_id = ''cycling'', mode_name = ''En bicicleta'',
                       profile = ''cycling'', icon = ''bicycle'', avgSpeed = 20\<rparr>,
      ''walking'' \<mapsto> \<lparr>mode_id = ''walking'', mode_name = ''A pie'',
                       profile = ''foot'', icon = ''walking'', avgSpeed = 5\<rparr>]"

text \<open>
  The GeoJSON geometry of a route: its \<open>type\<close> and its \<open>[lng, lat]\<close> pairs. A leg and
  a step of the routing service's answer, and a named point of a result.
\<close>

record geometry =
  geo_type :: string
  geo_coordinates :: "(number \<times> number) list"

record route_step =
  step_distance :: number
  step_duration :: number
  instruction :: string
  step_name :: string

record route_leg =
  leg_distance :: number
  leg_duration :: number
  steps :: "route_step list"

record route_point =
  point_name :: string
  location :: coord

text \<open>
  The object \<open>calculateRoute\<close> resolves to. The primary path sets no \<open>isFallback\<close>
  property; its readers take the absent property as false (\<open>route.isFallback || false\<close>),
  which is the value the record holds then.
\<close>

record route_result =
  distance :: number
  duration :: number
  geometry :: "geometry option"
  legs :: "route_leg list"
  waypoints :: "route_point list"
  isFallback :: bool

text \<open>
  The answer of the routing service as the code reads it: \<open>data.code\<close>, \<open>data.message\<close>,
  \<open>data.routes\<close> and \<open>data.waypoints\<close>, a step with its \<open>maneuver.type\<close> and \<open>name\<close>
  (the empty string when absent), and a waypoint with its \<open>[lng, lat]\<close> location.
\<close>

record osrm_step =
  os_distance :: number
  os_duration :: number
  os_maneuver_type :: string
  os_name :: string

record osrm_leg =
  ol_distance :: number
  ol_duration :: number
  ol_steps :: "osrm_step list"

record osrm_route =
  or_distance :: number
  or_duration :: number
  or_geometry :: "geometry option"
  or_legs :: "osrm_leg list"

record osrm_waypoint =
  ow_name :: string
  ow_location :: "number \<times> number"

record osrm_data =
  code :: string
  message :: string
  routes :: "osrm_route list"
  data_waypoints :: "osrm_waypoint list"

text \<open>
  What \<open>await fetch(url)\<close> and \<open>await response.json()\<close> give: the request is rejected
  (no network), or \<open>Response ok status body\<close>: a response with its \<open>ok\<close> flag, its
  status and its body, \<open>None\<close> when the body is not JSON and \<open>response.json()\<close>
  rejects.
\<close>

datatype fetch_outcome =
  NetworkFailure
| Response bool nat "osrm_data option"

text \<open>
  The request the URL encodes: the profile and the \<open>lng,lat\<close> pairs in order (the
  query string \<open>overview=full&geometries=geojson&steps=true\<close> is constant).
\<close>

record request =
  req_profile :: string
  req_coordinates :: "(number \<times> number) list"

text \<open>
  \<open>InsufficientWaypoints\<close> is the \<open>Error\<close> thrown with the message
  \<open>Se necesitan al menos 2 puntos para calcular una ruta\<close>; \<open>TypeError\<close> is a
  property read on \<open>undefined\<close>.
\<close>

datatype error = InsufficientWaypoints | TypeError

text \<open>
  The text of an index in a template literal, for \<open>`Punto ${i + 1}`\<close>: the decimal
  digits, most significant first.
\<close>

definition digit_char :: "nat \<Rightarrow> char" where
  "digit_char d = char_of (d + 48)"

function numberToString :: "nat \<Rightarrow> string" where
  "numberToString n =
     (if 10 \<le> n then numberToString (n div 10) @ [digit_char (n mod 10)]
      else [digit_char n])"
  by pat_completeness auto
termination
  by (relation "measure id") auto

declare numberToString.simps [simp del]

text \<open>
  The loop \<open>for (let i = 0; i < waypoints.length - 1; i++)\<close> of
  \<open>calculateFallbackRoute\<close>, from the index \<open>i\<close> with the sum so far.
\<close>

function totalDistance_loop :: "arith \<Rightarrow> coord list \<Rightarrow> nat \<Rightarrow> number \<Rightarrow> number" where
  "totalDistance_loop ar wps i totalDistance =
     (if int i < int (length wps) - 1
      then totalDistance_loop ar wps (i + 1)
             (num_add ar totalDistance (haversineDistance ar (wps ! i) (wps ! (i + 1))))
      else totalDistance)"
  by pat_completeness auto
termination
  by (relation "measure (\<lambda>(ar, wps, i, t). length wps - i)") auto

declare totalDistance_loop.simps [simp del]

text \<open>\<open>TransportModes[mode]?.avgSpeed || 80\<close>: \<open>80\<close> for an unknown mode or a speed \<open>0\<close>.\<close>

definition fallbackSpeed :: "string \<Rightarrow> real" where
  "fallbackSpeed mode =
     (case TransportModes mode of
        None \<Rightarrow> 80
      | Some m \<Rightarrow> if avgSpeed m = 0 then 80 else avgSpeed m)"

definition calculateFallbackRoute :: "arith \<Rightarrow> coord list \<Rightarrow> string \<Rightarrow> route_result" where
  "calculateFallbackRoute ar wps mode =
     (let speed = Num (fallbackSpeed mode);
          totalDistance = totalDistance_loop ar wps 0 (Num 0);
          roadDistance = num_mul ar totalDistance (decimal ar 1.3);
          dur = num_mul ar (num_div ar roadDistance speed) (Num 3600);
          geom = \<lparr>geo_type = ''LineString'',
                  geo_coordinates = map (\<lambda>wp. (snd wp, fst wp)) wps\<rparr>
      in \<lparr>distance = num_mul ar roadDistance (Num 1000),
          duration = dur,
          geometry = Some geom,
          legs = [],
          waypoints = map (\<lambda>(wp, i). \<lparr>point_name = ''Punto '' @ numberToString (i + 1),
                                         location = wp\<rparr>)
                        (zip wps [0 ..< length wps]),
          isFallback = True\<rparr>)"

text \<open>\<open>TransportModes[mode]?.profile || 'driving'\<close>.\<close>

definition routingProfile :: "string \<Rightarrow> string" where
  "routingProfile mode =
     (case TransportModes mode of
        None \<Rightarrow> ''driving''
      | Some m \<Rightarrow> if profile m = [] then ''driving'' else profile m)"

text \<open>The object built from \<open>data\<close> when the service answered \<open>Ok\<close> with a route.\<close>

definition primaryResult :: "osrm_route \<Rightarrow> osrm_data \<Rightarrow> route_result" where
  "primaryResult route data =
     \<lparr>distance = or_distance route,
      duration = or_duration route,
      geometry = or_geometry route,
      legs = map (\<lambda>leg. \<lparr>leg_distance = ol_distance leg,
                           leg_duration = ol_duration leg,
                           steps = map (\<lambda>step. \<lparr>step_distance = os_distance step,
                                                  step_duration = os_duration step,
                                                  instruction = os_maneuver_type step,
                                                  step_name = (if os_name step = []
                                                               then ''Sin nombre''
                                                               else os_name step)\<rparr>)
                                       (ol_steps leg)\<rparr>)
                 (or_legs route),
      waypoints = map (\<lambda>wp. \<lparr>point_name = ow_name wp,
                               location = (snd (ow_location wp), fst (ow_location wp))\<rparr>)
                      (data_waypoints data),
      isFallback = False\<rparr>"

text \<open>
  \<open>calculateRoute\<close>. The argument \<open>outcome\<close> is what the one \<open>fetch\<close> of the call
  gives; the argument \<open>waypoints\<close> of the source is \<open>wps_arg\<close>, \<open>None\<close> for \<open>null\<close> or
  \<open>undefined\<close>. The result is the value the promise settles with (\<open>Inl\<close> when it
  rejects) and the requests sent. Every exception inside the \<open>try\<close> block (the
  rejected \<open>fetch\<close>, the two \<open>throw\<close>s, the body that is not JSON, \<open>data.routes[0]\<close>
  undefined) ends in the \<open>catch\<close> block, which returns the fallback route. The
  parameter \<open>mode\<close> has the default \<open>'driving'\<close> when the caller passes none.
\<close>

definition calculateRoute ::
  "arith \<Rightarrow> fetch_outcome \<Rightarrow> coord list option \<Rightarrow> string
     \<Rightarrow> (error + route_result) \<times> request list" where
  "calculateRoute ar outcome wps_arg mode =
     (case wps_arg of
        None \<Rightarrow> (Inl InsufficientWaypoints, [])
      | Some wps \<Rightarrow>
          if length wps < 2 then (Inl InsufficientWaypoints, [])
          else
            let url = \<lparr>req_profile = routingProfile mode,
                       req_coordinates = map (\<lambda>wp. (snd wp, fst wp)) wps\<rparr>
            in (Inr (case outcome of
                       NetworkFailure \<Rightarrow> calculateFallbackRoute ar wps mode
                     | Response ok status body \<Rightarrow>
                         if \<not> ok then calculateFallbackRoute ar wps mode
                         else (case body of
                                 None \<Rightarrow> calculateFallbackRoute ar wps mode
                               | Some data \<Rightarrow>
                                   if code data \<noteq> ''Ok''
                                   then calculateFallbackRoute ar wps mode
                                   else (case routes data of
                                           [] \<Rightarrow> calculateFallbackRoute ar wps mode
                                         | route # _ \<Rightarrow> primaryResult route data))),
                [url]))"

section \<open>Waypoint sequencer (routing service: optimizeWaypointOrder)\<close>

text \<open>
  A waypoint of a route, as \<open>addWaypointFromPOI\<close> builds it: \<open>id\<close>, \<open>name\<close>,
  \<open>coordinates\<close> and \<open>category\<close>.
\<close>

record waypoint =
  wp_id :: string
  wp_name :: string
  coordinates :: coord
  category :: string

text \<open>
  The body of \<open>remaining.forEach((wp, i) => ...)\<close>: the elements still to visit, the
  index \<open>i\<close> of the first of them, and the variables \<open>nearestIndex\<close> and
  \<open>nearestDistance\<close> the callback assigns (\<open>dst\<close> is its constant \<open>dist\<close>). The test
  \<open>dist < nearestDistance\<close> is the comparison of the two numbers.
\<close>

fun nearest_scan ::
  "arith \<Rightarrow> waypoint \<Rightarrow> waypoint list \<Rightarrow> nat \<Rightarrow> nat \<times> number \<Rightarrow> nat \<times> number" where
  "nearest_scan ar current [] i acc = acc"
| "nearest_scan ar current (wp # rest) i (nearestIndex, nearestDistance) =
     (let dst = haversineDistance ar (coordinates current) (coordinates wp)
      in if num_lt dst nearestDistance
         then nearest_scan ar current rest (i + 1) (i, dst)
         else nearest_scan ar current rest (i + 1) (nearestIndex, nearestDistance))"

text \<open>\<open>remaining.splice(nearestIndex, 1)\<close>: what is left of \<open>remaining\<close>.\<close>

definition splice_out :: "nat \<Rightarrow> 'a list \<Rightarrow> 'a list" where
  "splice_out n xs = take n xs @ drop (n + 1) xs"

lemma nearest_scan_index:
  "fst (nearest_scan ar current rem i (n, d)) = n \<or>
   (i \<le> fst (nearest_scan ar current rem i (n, d)) \<and>
    fst (nearest_scan ar current rem i (n, d)) < i + length rem)"
proof (induction rem arbitrary: i n d)
  case Nil
  then show ?case by simp
next
  case (Cons wp rest)
  show ?case
    using Cons.IH [of "i + 1" i "haversineDistance ar (coordinates current) (coordinates wp)"]
      Cons.IH [of "i + 1" n d]
    by (auto simp: Let_def)
qed

text \<open>
  The loop \<open>while (remaining.length > 0)\<close>, on the arrays \<open>optimized\<close> and
  \<open>remaining\<close>, with \<open>nearestIndex = 0\<close> and \<open>nearestDistance = Infinity\<close> at the start
  of each pass. The element pushed is \<open>remaining[nearestIndex]\<close>, which the \<open>splice\<close>
  removes.
\<close>

function optimize_loop :: "arith \<Rightarrow> waypoint list \<Rightarrow> waypoint list \<Rightarrow> waypoint list" where
  "optimize_loop ar optimized remaining =
     (if length remaining > 0
      then let current = last optimized;
               nearestIndex = fst (nearest_scan ar current remaining 0 (0, PlusInfinity))
           in optimize_loop ar (optimized @ [remaining ! nearestIndex])
                (splice_out nearestIndex remaining)
      else optimized)"
  by pat_completeness auto
termination
proof (relation "measure (\<lambda>(ar, optimized, remaining). length remaining)")
  show "wf (measure (\<lambda>(ar, optimized, remaining). length remaining))" by simp
next
  fix ar :: arith and optimized remaining :: "waypoint list" and current nearestIndex
  assume r: "0 < length remaining"
    and c: "current = last optimized"
    and n: "nearestIndex = fst (nearest_scan ar current remaining 0 (0, PlusInfinity))"
  have "nearestIndex < length remaining"
    using nearest_scan_index [of ar current remaining 0 0 PlusInfinity] r n by auto
  then show "((ar, optimized @ [remaining ! nearestIndex], splice_out nearestIndex remaining),
              (ar, optimized, remaining))
             \<in> measure (\<lambda>(ar, optimized, remaining). length remaining)"
    by (simp add: splice_out_def)
qed

declare optimize_loop.simps [simp del]

text \<open>
  \<open>optimizeWaypointOrder\<close>. With more than two waypoints and \<open>startIndex\<close> not an
  index of the array, \<open>waypoints[startIndex]\<close> is \<open>undefined\<close>, the filter keeps every
  waypoint, and the first pass of the loop reads \<open>current.coordinates\<close> of
  \<open>undefined\<close>: a \<open>TypeError\<close>.
\<close>

definition optimizeWaypointOrder :: "arith \<Rightarrow> waypoint list \<Rightarrow> int \<Rightarrow> error + waypoint list" where
  "optimizeWaypointOrder ar wps startIndex =
     (if length wps \<le> 2 then Inr wps
      else if 0 \<le> startIndex \<and> startIndex < int (length wps)
      then let optimized = [wps ! nat startIndex];
               remaining = map fst (filter (\<lambda>(_, i). int i \<noteq> startIndex)
                                      (zip wps [0 ..< length wps]))
           in Inr (optimize_loop ar optimized remaining)
      else Inl TypeError)"

section \<open>Route aggregate (app.js: the route under construction)\<close>

subsection \<open>The catalogue of points of interest (data/pois.js)\<close>

text \<open>
  The fields of a point of interest and of a category that the route builder reads.
  The catalogue itself is static data: the lists \<open>pois\<close> and \<open>categories\<close> are
  parameters of the operations that look into them.
\<close>

record poi =
  poi_id :: string
  poi_name :: string
  poi_category :: string
  poi_coordinates :: coord

record poi_category_info =
  cat_id :: string
  cat_name :: string

definition getPoiById :: "poi list \<Rightarrow> string \<Rightarrow> poi option" where
  "getPoiById pois poiId = find (\<lambda>p. poi_id p = poiId) pois"

definition getCategoryById :: "poi_category_info list \<Rightarrow> string \<Rightarrow> poi_category_info option" where
  "getCategoryById categories categoryId = find (\<lambda>cat. cat_id cat = categoryId) categories"

subsection \<open>The map manager (class MapManager: waypoint markers and the route line)\<close>

text \<open>
  Of the map, the state the route methods keep: the waypoint markers and the route
  line, which is a GeoJSON layer (\<open>drawRoute\<close>) or a dashed polyline
  (\<open>drawPolyline\<close>). Fitting the view to the line is not modelled.
\<close>

record marker =
  marker_position :: coord
  marker_label :: nat
  marker_title :: string

datatype route_line = RouteLayer geometry | Polyline "coord list"

record map_manager =
  waypointMarkers :: "marker list"
  routeLine :: "route_line option"

definition addWaypointMarker :: "coord \<Rightarrow> nat \<Rightarrow> string \<Rightarrow> map_manager \<Rightarrow> map_manager" where
  "addWaypointMarker coords index poiName m =
     m\<lparr>waypointMarkers := waypointMarkers m @
          [\<lparr>marker_position = coords,
            marker_label = index + 1,
            marker_title = (if poiName = [] then ''Punto '' @ numberToString (index + 1)
                            else poiName)\<rparr>]\<rparr>"

definition clearWaypointMarkers :: "map_manager \<Rightarrow> map_manager" where
  "clearWaypointMarkers m = m\<lparr>waypointMarkers := []\<rparr>"

definition updateWaypointMarkers :: "waypoint list \<Rightarrow> map_manager \<Rightarrow> map_manager" where
  "updateWaypointMarkers wps m =
     fold (\<lambda>(wp, index). addWaypointMarker (coordinates wp) index (wp_name wp))
          (zip wps [0 ..< length wps]) (clearWaypointMarkers m)"

text \<open>\<open>MapManager.clearRoute\<close>: removes the route line when there is one.\<close>

definition map_clearRoute :: "map_manager \<Rightarrow> map_manager" where
  "map_clearRoute m = (if routeLine m \<noteq> None then m\<lparr>routeLine := None\<rparr> else m)"

definition drawRoute :: "geometry \<Rightarrow> map_manager \<Rightarrow> map_manager" where
  "drawRoute g m = (map_clearRoute m)\<lparr>routeLine := Some (RouteLayer g)\<rparr>"

definition drawPolyline :: "coord list \<Rightarrow> map_manager \<Rightarrow> map_manager" where
  "drawPolyline coords m = (map_clearRoute m)\<lparr>routeLine := Some (Polyline coords)\<rparr>"

definition clearRouteElements :: "map_manager \<Rightarrow> map_manager" where
  "clearRouteElements m = clearWaypointMarkers (map_clearRoute m)"

subsection \<open>The application state\<close>

text \<open>
  The object \<open>this.currentRoute\<close>. Its field \<open>waypoints\<close> is a reference to an array:
  \<open>push\<close> and \<open>splice\<close> change the array in place, \<open>clearRoute\<close> installs a new one,
  and a suspended \<open>updateRouteOnMap\<close> still holds the array it started with. The
  arrays live in the store \<open>arrays\<close> of the application state.
\<close>

record current_route =
  route_waypoints :: nat
  route_distance :: number
  route_duration :: number
  route_geometry :: "geometry option"
  transportMode :: string

text \<open>
  A call of \<open>updateRouteOnMap\<close> suspended at \<open>await calculateRoute(...)\<close>: its constants
  \<open>waypoints\<close> (the array reference) and \<open>coordinates\<close>, and the mode it passed.
\<close>

record pending_update =
  p_waypoints :: nat
  p_coordinates :: "coord list"
  p_mode :: string

text \<open>
  The texts of \<open>showToast\<close> in the route builder: \<open>Este punto ya esta en la ruta\<close>,
  \<open>`${poi.name} anadido a la ruta`\<close>, \<open>Ruta limpiada\<close> and
  \<open>Error al calcular la ruta\<close> (written here without their accents); a toast is a text
  with its type (\<open>info\<close>, \<open>success\<close>, \<open>error\<close>).
\<close>

datatype toast_text = AlreadyInRoute | AddedToRoute string | RouteCleared | RouteCalcError

text \<open>
  The application: the store of waypoint arrays with the next free reference, the
  current route, the map, the toasts shown so far, the numbers last written to the
  statistics panel (the arguments of \<open>formatDistance\<close> and \<open>formatDuration\<close> in
  \<open>updateRouteStats\<close>), the visibility flags set by \<open>renderWaypoints\<close> and the loading
  indicator, every call of \<open>calculateRoute\<close> made so far, and the suspended calls of
  \<open>updateRouteOnMap\<close>.
\<close>

record app =
  arrays :: "nat \<Rightarrow> waypoint list"
  next_array :: nat
  currentRoute :: current_route
  map_of_app :: map_manager
  toasts :: "(toast_text \<times> string) list"
  shown_distance :: number
  shown_duration :: number
  stats_hidden :: bool
  save_disabled :: bool
  loading_hidden :: bool
  calls :: "(coord list \<times> string) list"
  pending :: "pending_update list"

text \<open>\<open>this.currentRoute.waypoints\<close>, read through the reference.\<close>

definition waypoints_of :: "app \<Rightarrow> waypoint list" where
  "waypoints_of s = arrays s (route_waypoints (currentRoute s))"

text \<open>The state the constructor builds, before any panel is rendered.\<close>

definition initial_app :: app where
  "initial_app =
     \<lparr>arrays = (\<lambda>_. []),
      next_array = 1,
      currentRoute = \<lparr>route_waypoints = 0, route_distance = Num 0, route_duration = Num 0,
                       route_geometry = None, transportMode = ''driving''\<rparr>,
      map_of_app = \<lparr>waypointMarkers = [], routeLine = None\<rparr>,
      toasts = [],
      shown_distance = Num 0,
      shown_duration = Num 0,
      stats_hidden = True,
      save_disabled = True,
      loading_hidden = True,
      calls = [],
      pending = []\<rparr>"

text \<open>
  Modelled from the spec: \<open>showToast\<close> of \<open>utils/helpers.js\<close> is not among the sources.
  It shows a notification, which is recorded here with its text and type.
\<close>

definition showToast :: "toast_text \<Rightarrow> string \<Rightarrow> app \<Rightarrow> app" where
  "showToast text type s = s\<lparr>toasts := toasts s @ [(text, type)]\<rparr>"

text \<open>
  \<open>renderWaypoints\<close>: of the panel it rebuilds, the two flags. With no waypoint it
  hides the statistics and disables saving and returns; otherwise both follow
  \<open>waypoints.length >= 2\<close>.
\<close>

definition renderWaypoints :: "app \<Rightarrow> app" where
  "renderWaypoints s =
     (if length (waypoints_of s) = 0
      then s\<lparr>stats_hidden := True, save_disabled := True\<rparr>
      else if length (waypoints_of s) \<ge> 2
      then s\<lparr>stats_hidden := False, save_disabled := False\<rparr>
      else s\<lparr>stats_hidden := True, save_disabled := True\<rparr>)"

definition updateRouteStats :: "app \<Rightarrow> app" where
  "updateRouteStats s =
     s\<lparr>shown_distance := route_distance (currentRoute s),
       shown_duration := route_duration (currentRoute s)\<rparr>"

text \<open>
  \<open>updateRouteOnMap\<close> up to its \<open>await\<close>. With fewer than two waypoints it runs to its
  end: the route line is cleared, distance and duration are set to \<open>0\<close> and the panel
  is updated. Otherwise it shows the loading indicator, calls \<open>calculateRoute\<close> with
  the coordinates and the current mode, and is suspended.
\<close>

definition updateRouteOnMap :: "app \<Rightarrow> app" where
  "updateRouteOnMap s =
     (let wref = route_waypoints (currentRoute s);
          wps = arrays s wref;
          s1 = s\<lparr>map_of_app := updateWaypointMarkers wps (map_of_app s)\<rparr>
      in if length wps < 2
         then let s2 = s1\<lparr>map_of_app := map_clearRoute (map_of_app s1)\<rparr>;
                  s3 = s2\<lparr>currentRoute := (currentRoute s2)\<lparr>route_distance := Num 0\<rparr>\<rparr>;
                  s4 = s3\<lparr>currentRoute := (currentRoute s3)\<lparr>route_duration := Num 0\<rparr>\<rparr>
              in updateRouteStats s4
         else let s2 = s1\<lparr>loading_hidden := False\<rparr>;
                  coords = map coordinates wps;
                  mode = transportMode (currentRoute s2)
              in s2\<lparr>calls := calls s2 @ [(coords, mode)],
                    pending := pending s2 @
                      [\<lparr>p_waypoints = wref, p_coordinates = coords, p_mode = mode\<rparr>]\<rparr>)"

text \<open>
  The rest of a suspended \<open>updateRouteOnMap\<close>, run when its \<open>calculateRoute\<close> settles;
  \<open>outcome\<close> is what the routing service gave to that call. The \<open>try\<close> block stores
  and draws the route; the \<open>catch\<close> block (the promise was rejected) shows the error
  and draws a polyline through the array the call started with, as it is now; the
  \<open>finally\<close> block hides the loading indicator. \<open>ar\<close> is the arithmetic of the
  host, which \<open>calculateRoute\<close> uses on its fallback path.
\<close>

definition updateRouteOnMap_resume ::
  "arith \<Rightarrow> pending_update \<Rightarrow> fetch_outcome \<Rightarrow> app \<Rightarrow> app" where
  "updateRouteOnMap_resume ar p outcome s =
     (let s' =
        (case fst (calculateRoute ar outcome (Some (p_coordinates p)) (p_mode p)) of
           Inr routeData \<Rightarrow>
             let s1 = s\<lparr>currentRoute := (currentRoute s)\<lparr>route_distance := distance routeData\<rparr>\<rparr>;
                 s2 = s1\<lparr>currentRoute := (currentRoute s1)\<lparr>route_duration := duration routeData\<rparr>\<rparr>;
                 s3 = s2\<lparr>currentRoute := (currentRoute s2)\<lparr>route_geometry := geometry routeData\<rparr>\<rparr>;
                 s4 = (case geometry routeData of
                         Some g \<Rightarrow> s3\<lparr>map_of_app := drawRoute g (map_of_app s3)\<rparr>
                       | None \<Rightarrow> s3\<lparr>map_of_app := drawPolyline (p_coordinates p) (map_of_app s3)\<rparr>)
             in updateRouteStats s4
         | Inl error \<Rightarrow>
             let s1 = showToast RouteCalcError ''error'' s;
                 coords = map coordinates (arrays s1 (p_waypoints p))
             in s1\<lparr>map_of_app := drawPolyline coords (map_of_app s1)\<rparr>)
      in s'\<lparr>loading_hidden := True\<rparr>)"

text \<open>
  \<open>addWaypointFromPOI\<close>. The popup it closes is not modelled. \<open>updateRouteOnMap\<close> is
  called without \<open>await\<close>: the toast follows its synchronous part.
\<close>

definition addWaypointFromPOI :: "poi list \<Rightarrow> poi_category_info list \<Rightarrow> string \<Rightarrow> app \<Rightarrow> app" where
  "addWaypointFromPOI pois categories poiId s =
     (case getPoiById pois poiId of
        None \<Rightarrow> s
      | Some poi \<Rightarrow>
          if list_ex (\<lambda>wp. wp_id wp = poiId) (waypoints_of s)
          then showToast AlreadyInRoute ''info'' s
          else
            let cat = getCategoryById categories (poi_category poi);
                wref = route_waypoints (currentRoute s);
                s1 = s\<lparr>arrays := (arrays s)(wref := arrays s wref @
                        [\<lparr>wp_id = poi_id poi,
                          wp_name = poi_name poi,
                          coordinates = poi_coordinates poi,
                          category = (case cat of
                                        None \<Rightarrow> poi_category poi
                                      | Some c \<Rightarrow> if cat_name c = [] then poi_category poi
                                                  else cat_name c)\<rparr>])\<rparr>
            in showToast (AddedToRoute (poi_name poi)) ''success''
                 (updateRouteOnMap (renderWaypoints s1)))"

text \<open>
  \<open>waypoints.splice(index, 1)\<close>: a negative index counts from the end, and nothing
  is removed from the end of the array on.
\<close>

definition splice_one :: "int \<Rightarrow> 'a list \<Rightarrow> 'a list" where
  "splice_one index xs =
     (let len = int (length xs);
          start = (if index < 0 then max (len + index) 0 else min index len)
      in take (nat start) xs @ drop (nat start + 1) xs)"

definition removeWaypoint :: "int \<Rightarrow> app \<Rightarrow> app" where
  "removeWaypoint index s =
     (let wref = route_waypoints (currentRoute s);
          s1 = s\<lparr>arrays := (arrays s)(wref := splice_one index (arrays s wref))\<rparr>
      in updateRouteOnMap (renderWaypoints s1))"

text \<open>\<open>setTransportMode\<close>; the buttons it restyles are not modelled.\<close>

definition setTransportMode :: "string \<Rightarrow> app \<Rightarrow> app" where
  "setTransportMode mode s =
     (let s1 = s\<lparr>currentRoute := (currentRoute s)\<lparr>transportMode := mode\<rparr>\<rparr>
      in if length (waypoints_of s1) \<ge> 2 then updateRouteOnMap s1 else s1)"

text \<open>\<open>clearRoute\<close>: a new route object with a new, empty array, and the mode of the old one.\<close>

definition clearRoute :: "app \<Rightarrow> app" where
  "clearRoute s =
     (let s1 = s\<lparr>arrays := (arrays s)(next_array s := []),
                  next_array := next_array s + 1,
                  currentRoute := \<lparr>route_waypoints = next_array s,
                                    route_distance = Num 0,
                                    route_duration = Num 0,
                                    route_geometry = None,
                                    transportMode = transportMode (currentRoute s)\<rparr>\<rparr>;
          s2 = s1\<lparr>map_of_app := clearRouteElements (map_of_app s1)\<rparr>
      in showToast RouteCleared ''info'' (updateRouteStats (renderWaypoints s2)))"

text \<open>
  The event loop delivers the answer of the routing service to one of the suspended
  calls, in any order: \<open>settle ar k outcome\<close> resumes the \<open>k\<close>-th of them (nothing
  happens when there is no such call).
\<close>

definition settle :: "arith \<Rightarrow> nat \<Rightarrow> fetch_outcome \<Rightarrow> app \<Rightarrow> app" where
  "settle ar k outcome s =
     (if k < length (pending s)
      then updateRouteOnMap_resume ar (pending s ! k) outcome
             (s\<lparr>pending := take k (pending s) @ drop (k + 1) (pending s)\<rparr>)
      else s)"

subsection \<open>Example states\<close>

text \<open>
  Two points of interest of the catalogue and their category, for the examples.
\<close>

definition example_pois :: "poi list" where
  "example_pois =
     [\<lparr>poi_id = ''gullfoss'', poi_name = ''Gullfoss'', poi_category = ''waterfall'',
       poi_coordinates = (Num 64.3271, Num (- 20.1199))\<rparr>,
      \<lparr>poi_id = ''seljalandsfoss'', poi_name = ''Seljalandsfoss'', poi_category = ''waterfall'',
       poi_coordinates = (Num 63.6156, Num (- 19.9886))\<rparr>]"

definition example_categories :: "poi_category_info list" where
  "example_categories = [\<lparr>cat_id = ''waterfall'', cat_name = ''Cascadas''\<rparr>]"

text \<open>
  An answer of the routing service with code \<open>Ok\<close> and one route of the given
  distance (meters) and duration (seconds).
\<close>

definition example_geometry :: geometry where
  "example_geometry =
     \<lparr>geo_type = ''LineString'',
      geo_coordinates = [(Num (- 20.1199), Num 64.3271), (Num (- 19.9886), Num 63.6156)]\<rparr>"

definition example_answer :: "real \<Rightarrow> real \<Rightarrow> fetch_outcome" where
  "example_answer meters seconds =
     Response True 200
       (Some \<lparr>code = ''Ok'', message = [],
              routes = [\<lparr>or_distance = Num meters, or_duration = Num seconds,
                         or_geometry = Some example_geometry, or_legs = []\<rparr>],
              data_waypoints = []\<rparr>)"

text \<open>
  The two waypoints these additions build, and their coordinates.
\<close>

definition gullfoss_wp :: waypoint where
  "gullfoss_wp = \<lparr>wp_id = ''gullfoss'', wp_name = ''Gullfoss'',
                   coordinates = (Num 64.3271, Num (- 20.1199)), category = ''Cascadas''\<rparr>"

definition seljalandsfoss_wp :: waypoint where
  "seljalandsfoss_wp = \<lparr>wp_id = ''seljalandsfoss'', wp_name = ''Seljalandsfoss'',
                   coordinates = (Num 63.6156, Num (- 19.9886)), category = ''Cascadas''\<rparr>"

definition example_coordinates :: "coord list" where
  "example_coordinates = [(Num 64.3271, Num (- 20.1199)), (Num 63.6156, Num (- 19.9886))]"

text \<open>
  The application after the first, and after the second point was added to the
  route: the second addition called \<open>calculateRoute\<close>, which has not settled.
\<close>

definition one_stop :: app where
  "one_stop = addWaypointFromPOI example_pois example_categories ''gullfoss'' initial_app"

definition two_stops :: app where
  "two_stops = addWaypointFromPOI example_pois example_categories ''seljalandsfoss'' one_stop"

text \<open>
  The route of two waypoints once the routing service has answered.
\<close>

definition route_ready :: "arith \<Rightarrow> app" where
  "route_ready ar = settle ar 0 (example_answer 125000 5400) two_stops"

text \<open>
  The mode is changed to walking while the driving computation is in flight.
\<close>

definition mode_changed :: app where
  "mode_changed = setTransportMode ''walking'' two_stops"

text \<open>A waypoint with a name and a position, for the examples.\<close>

definition poi_at :: "string \<Rightarrow> coord \<Rightarrow> waypoint" where
  "poi_at n c = \<lparr>wp_id = n, wp_name = n, coordinates = c, category = ''landmark''\<rparr>"

subsection \<open>An arithmetic for the examples\<close>

text \<open>
  The theorems below hold for every arithmetic of the host. To give them closed
  instances, \<open>ideal\<close> is the arithmetic of the real numbers: exact on finite numbers
  (either zero counting as \<open>0\<close>), and NaN where the reals have no value or an
  argument is not finite. It is not the arithmetic of doubles, which rounds.
\<close>

definition real_of :: "number \<Rightarrow> real option" where
  "real_of x = (case x of Num a \<Rightarrow> Some a | MinusZero \<Rightarrow> Some 0 | _ \<Rightarrow> None)"

definition lift1 :: "(real \<Rightarrow> real) \<Rightarrow> number \<Rightarrow> number" where
  "lift1 f x = (case real_of x of Some a \<Rightarrow> Num (f a) | None \<Rightarrow> NaN)"

definition lift2 :: "(real \<Rightarrow> real \<Rightarrow> real) \<Rightarrow> number \<Rightarrow> number \<Rightarrow> number" where
  "lift2 f x y =
     (case real_of x of
        Some a \<Rightarrow> (case real_of y of Some b \<Rightarrow> Num (f a b) | None \<Rightarrow> NaN)
      | None \<Rightarrow> NaN)"

text \<open>The angle of the point \<open>(x, y)\<close>, in \<open>(-\<pi>, \<pi>]\<close>, and \<open>0\<close> at the origin.\<close>

definition real_atan2 :: "real \<Rightarrow> real \<Rightarrow> real" where
  "real_atan2 y x =
     (if 0 < x then arctan (y / x)
      else if x < 0 then (if 0 \<le> y then arctan (y / x) + pi else arctan (y / x) - pi)
      else if 0 < y then pi / 2
      else if y < 0 then - (pi / 2)
      else 0)"

definition ideal :: arith where
  "ideal =
     \<lparr>num_add = lift2 (+),
      num_sub = lift2 (-),
      num_mul = lift2 (*),
      num_div = (\<lambda>x y. if real_of y = Some 0 then NaN else lift2 (/) x y),
      math_sin = lift1 sin,
      math_cos = lift1 cos,
      math_sqrt = (\<lambda>x. case real_of x of
                          Some a \<Rightarrow> if a < 0 then NaN else Num (sqrt a)
                        | None \<Rightarrow> NaN),
      math_atan2 = lift2 real_atan2,
      math_PI = Num pi,
      decimal = Num\<rparr>"

section \<open>Predicates used to state the properties\<close>





section \<open>The arithmetic of the examples\<close>

lemma atan2_sin_cos:
  assumes "0 \<le> y" "y \<le> pi / 2"
  shows "real_atan2 (sin y) (cos y) = y"
proof (cases "y = pi / 2")
  case True
  show ?thesis unfolding True by (simp add: real_atan2_def)
next
  case False
  with assms have lt: "y < pi / 2" by simp
  have gt: "- (pi / 2) < y" using assms(1) pi_gt_zero by linarith
  have c: "0 < cos y" using gt lt by (rule cos_gt_zero_pi)
  have "arctan (tan y) = y" using gt lt by (rule arctan_tan)
  then show ?thesis using c by (simp add: real_atan2_def tan_def)
qed

lemma ideal_ops:
  "num_add ideal (Num a) (Num b) = Num (a + b)"
  "num_sub ideal (Num a) (Num b) = Num (a - b)"
  "num_mul ideal (Num a) (Num b) = Num (a * b)"
  "b \<noteq> 0 \<Longrightarrow> num_div ideal (Num a) (Num b) = Num (a / b)"
  "math_sin ideal (Num a) = Num (sin a)"
  "math_cos ideal (Num a) = Num (cos a)"
  "0 \<le> a \<Longrightarrow> math_sqrt ideal (Num a) = Num (sqrt a)"
  "math_atan2 ideal (Num a) (Num b) = Num (real_atan2 a b)"
  "math_PI ideal = Num pi"
  "decimal ideal a = Num a"
  by (simp_all add: ideal_def lift1_def lift2_def real_of_def)

lemma ideal_toRad: "toRad ideal (Num x) = Num (x * (pi / 180))"
  by (simp add: toRad_def ideal_ops)

text \<open>On the equator the ideal arithmetic gives the length of the arc.\<close>

lemma ideal_equator:
  assumes "\<bar>l2 - l1\<bar> \<le> 180"
  shows "haversineDistance ideal (Num 0, Num l1) (Num 0, Num l2)
           = Num (6371 * (\<bar>l2 - l1\<bar> * (pi / 180)))"
proof -
  define y where "y = \<bar>l2 - l1\<bar> * (pi / 180) / 2"
  define z where "z = (l2 - l1) * (pi / 180) / 2"
  have y0: "0 \<le> y" by (simp add: y_def)
  have "\<bar>l2 - l1\<bar> * (pi / 180) \<le> 180 * (pi / 180)"
    using assms by (intro mult_right_mono) simp_all
  then have y1: "y \<le> pi / 2" by (simp add: y_def)
  have yz: "y = \<bar>z\<bar>" by (simp add: y_def z_def abs_mult)
  have sq: "sin z * sin z = (sin y)\<^sup>2"
  proof (cases "0 \<le> z")
    case True
    then show ?thesis by (simp add: yz power2_eq_square)
  next
    case False
    then have "y = - z" by (simp add: yz)
    then have "z = - y" by simp
    then show ?thesis by (simp add: power2_eq_square)
  qed
  have s: "0 \<le> sin y" using y0 y1 pi_gt_zero by (intro sin_ge_zero) linarith+
  have c: "0 \<le> cos y" using y0 y1 pi_gt_zero by (intro cos_ge_zero) linarith+
  have c2: "1 - (sin y)\<^sup>2 = (cos y)\<^sup>2"
    using sin_cos_squared_add [of y] by linarith
  have dLat: "num_div ideal (toRad ideal (num_sub ideal (Num 0) (Num 0))) (Num 2) = Num 0"
    by (simp add: ideal_toRad ideal_ops)
  have dLon: "num_div ideal (toRad ideal (num_sub ideal (Num l2) (Num l1))) (Num 2) = Num z"
    by (simp add: ideal_toRad ideal_ops z_def)
  have cs: "math_cos ideal (toRad ideal (Num 0)) = Num 1"
    by (simp add: ideal_toRad ideal_ops)
  have a: "num_add ideal
             (num_mul ideal (math_sin ideal (Num 0)) (math_sin ideal (Num 0)))
             (num_mul ideal
                (num_mul ideal (num_mul ideal (Num 1) (Num 1)) (math_sin ideal (Num z)))
                (math_sin ideal (Num z)))
           = Num ((sin y)\<^sup>2)"
    by (simp add: ideal_ops sq)
  have r1: "math_sqrt ideal (Num ((sin y)\<^sup>2)) = Num (sin y)"
    using s by (simp add: ideal_ops)
  have r2: "math_sqrt ideal (num_sub ideal (Num 1) (Num ((sin y)\<^sup>2))) = Num (cos y)"
    using c by (simp add: ideal_ops c2)
  have at: "math_atan2 ideal (Num (sin y)) (Num (cos y)) = Num y"
    by (simp add: ideal_ops atan2_sin_cos [OF y0 y1])
  have "haversineDistance ideal (Num 0, Num l1) (Num 0, Num l2)
      = num_mul ideal (Num 6371) (num_mul ideal (Num 2) (Num y))"
    unfolding haversineDistance_def Let_def fst_conv snd_conv dLat dLon cs a r1 r2 at ..
  then show ?thesis
    by (simp add: ideal_ops y_def)
qed

section \<open>Properties of the route calculator\<close>

lemma totalDistance_loop_foldl:
  "totalDistance_loop ar wps i t =
     foldl (num_add ar) t
       (map (\<lambda>k. haversineDistance ar (wps ! k) (wps ! (k + 1))) [i ..< length wps - 1])"
proof (induction ar wps i t rule: totalDistance_loop.induct)
  case (1 ar wps i t)
  show ?case
  proof (cases "int i < int (length wps) - 1")
    case True
    then have lt: "i < length wps - 1" by linarith
    have u: "[i ..< length wps - 1] = i # [i + 1 ..< length wps - 1]"
      using lt by (simp add: upt_conv_Cons)
    have "totalDistance_loop ar wps i t =
            totalDistance_loop ar wps (i + 1)
              (num_add ar t (haversineDistance ar (wps ! i) (wps ! (i + 1))))"
      using True by (subst totalDistance_loop.simps) simp
    also have "\<dots> = foldl (num_add ar)
            (num_add ar t (haversineDistance ar (wps ! i) (wps ! (i + 1))))
            (map (\<lambda>k. haversineDistance ar (wps ! k) (wps ! (k + 1)))
               [i + 1 ..< length wps - 1])"
      using "1.IH" [OF True] .
    also have "\<dots> = foldl (num_add ar) t
            (map (\<lambda>k. haversineDistance ar (wps ! k) (wps ! (k + 1))) [i ..< length wps - 1])"
      unfolding u by simp
    finally show ?thesis .
  next
    case False
    then have "length wps - 1 \<le> i" by linarith
    then show ?thesis
      using False by (subst totalDistance_loop.simps) simp
  qed
qed

lemma TransportModes_speed:
  "TransportModes mode = Some m \<Longrightarrow> avgSpeed m = 80 \<or> avgSpeed m = 20 \<or> avgSpeed m = 5"
  by (auto simp: TransportModes_def split: if_splits)

lemma fallbackSpeed_known: "TransportModes mode = Some m \<Longrightarrow> fallbackSpeed mode = avgSpeed m"
  using TransportModes_speed [of mode m] by (auto simp: fallbackSpeed_def)

text \<open>
  C1: for two or more waypoints and a mode of the table, the fallback distance is the
  sum of the haversine distances of consecutive waypoints (km), added up in order
  from \<open>0\<close>, times \<open>1.3\<close>, times \<open>1000\<close>, and the duration is that road distance
  divided by the mode's average speed, times \<open>3600\<close>; each operation is the one of
  the host's arithmetic, whatever that arithmetic is.
\<close>

theorem calculateFallbackRoute_distance_duration:
  assumes "2 \<le> length wps" and "TransportModes mode = Some m"
  shows "distance (calculateFallbackRoute ar wps mode) =
           num_mul ar
             (num_mul ar
                (foldl (num_add ar) (Num 0)
                   (map (\<lambda>k. haversineDistance ar (wps ! k) (wps ! (k + 1)))
                      [0 ..< length wps - 1]))
                (decimal ar 1.3))
             (Num 1000)
         \<and> duration (calculateFallbackRoute ar wps mode) =
           num_mul ar
             (num_div ar
                (num_mul ar
                   (foldl (num_add ar) (Num 0)
                      (map (\<lambda>k. haversineDistance ar (wps ! k) (wps ! (k + 1)))
                         [0 ..< length wps - 1]))
                   (decimal ar 1.3))
                (Num (avgSpeed m)))
             (Num 3600)"
  using assms(2)
  by (simp add: calculateFallbackRoute_def Let_def totalDistance_loop_foldl fallbackSpeed_known)

theorem calculateFallbackRoute_distance_duration_witness:
  "2 \<le> length [(Num 0, Num 0), (Num 0, Num 1), (Num 0, Num 3)]
   \<and> TransportModes ''walking'' =
       Some \<lparr>mode_id = ''walking'', mode_name = ''A pie'',
             profile = ''foot'', icon = ''walking'', avgSpeed = 5\<rparr>
   \<and> distance (calculateFallbackRoute ideal
         [(Num 0, Num 0), (Num 0, Num 1), (Num 0, Num 3)] ''walking'')
       = Num ((6371 * (pi / 180) + 6371 * (2 * (pi / 180))) * 1.3 * 1000)
   \<and> duration (calculateFallbackRoute ideal
         [(Num 0, Num 0), (Num 0, Num 1), (Num 0, Num 3)] ''walking'')
       = Num ((6371 * (pi / 180) + 6371 * (2 * (pi / 180))) * 1.3 / 5 * 3600)"
proof -
  have m: "TransportModes ''walking'' =
       Some \<lparr>mode_id = ''walking'', mode_name = ''A pie'',
             profile = ''foot'', icon = ''walking'', avgSpeed = 5\<rparr>"
    by (simp add: TransportModes_def)
  have l: "2 \<le> length [(Num 0, Num 0), (Num 0, Num 1), (Num 0, Num 3)]" by simp
  have d1: "haversineDistance ideal (Num 0, Num 0) (Num 0, Num 1) = Num (6371 * (pi / 180))"
    using ideal_equator [of 1 0] by simp
  have d2: "haversineDistance ideal (Num 0, Num 1) (Num 0, Num 3) = Num (6371 * (2 * (pi / 180)))"
    using ideal_equator [of 3 1] by simp
  have u: "[0 ..< length [(Num 0, Num 0), (Num 0, Num 1), (Num 0, Num 3)] - 1] = [0, 1]"
    by (simp add: upt_conv_Cons)
  have s: "foldl (num_add ideal) (Num 0)
             (map (\<lambda>k. haversineDistance ideal
                     ([(Num 0, Num 0), (Num 0, Num 1), (Num 0, Num 3)] ! k)
                     ([(Num 0, Num 0), (Num 0, Num 1), (Num 0, Num 3)] ! (k + 1)))
                [0 ..< length [(Num 0, Num 0), (Num 0, Num 1), (Num 0, Num 3)] - 1])
           = Num (6371 * (pi / 180) + 6371 * (2 * (pi / 180)))"
    unfolding u by (simp add: d1 d2 ideal_ops)
  show ?thesis
    using calculateFallbackRoute_distance_duration [OF l m, of ideal] m
    unfolding s by (simp add: ideal_ops)
qed

text \<open>
  C2: for fewer than two coordinates, \<open>null\<close> and \<open>undefined\<close> included,
  \<open>calculateRoute\<close> fails with the insufficient-waypoints error and sends no request,
  whatever the network would answer.
\<close>

theorem calculateRoute_insufficient:
  assumes "wps_arg = None \<or> (\<exists>wps. wps_arg = Some wps \<and> length wps < 2)"
  shows "calculateRoute ar outcome wps_arg mode = (Inl InsufficientWaypoints, [])"
  using assms by (auto simp: calculateRoute_def)

theorem calculateRoute_insufficient_witness:
  "length [(Num 64.3271, Num (- 20.1199))] < 2
   \<and> calculateRoute ideal NetworkFailure (Some [(Num 64.3271, Num (- 20.1199))]) ''driving'' =
       (Inl InsufficientWaypoints, [])
   \<and> calculateRoute ideal NetworkFailure None ''driving'' = (Inl InsufficientWaypoints, [])"
  using calculateRoute_insufficient
      [where wps_arg = "Some [(Num 64.3271, Num (- 20.1199))]" and outcome = NetworkFailure
         and mode = "''driving''" and ar = ideal]
    calculateRoute_insufficient
      [where wps_arg = None and outcome = NetworkFailure and mode = "''driving''"
         and ar = ideal]
  by simp

section \<open>Properties of the waypoint sequencer\<close>














text \<open>
  C6: on two or fewer waypoints \<open>optimizeWaypointOrder\<close> returns its input unchanged,
  whatever \<open>startIndex\<close> is.
\<close>

theorem optimizeWaypointOrder_identity:
  "length wps \<le> 2 \<Longrightarrow> optimizeWaypointOrder ar wps startIndex = Inr wps"
  by (simp add: optimizeWaypointOrder_def)

theorem optimizeWaypointOrder_identity_witness:
  "length [poi_at ''A'' (Num 0, Num 0), poi_at ''C'' (Num 0, Num 3)] \<le> 2
   \<and> optimizeWaypointOrder ideal [poi_at ''A'' (Num 0, Num 0), poi_at ''C'' (Num 0, Num 3)] 1
       = Inr [poi_at ''A'' (Num 0, Num 0), poi_at ''C'' (Num 0, Num 3)]
   \<and> optimizeWaypointOrder ideal [poi_at ''A'' (Num 0, Num 0), poi_at ''C'' (Num 0, Num 3)] 7
       = Inr [poi_at ''A'' (Num 0, Num 0), poi_at ''C'' (Num 0, Num 3)]"
  using optimizeWaypointOrder_identity
      [of "[poi_at ''A'' (Num 0, Num 0), poi_at ''C'' (Num 0, Num 3)]" ideal 1]
    optimizeWaypointOrder_identity
      [of "[poi_at ''A'' (Num 0, Num 0), poi_at ''C'' (Num 0, Num 3)]" ideal 7]
  by simp

section \<open>Properties of the route aggregate\<close>

lemma waypoints_of_showToast: "waypoints_of (showToast text type s) = waypoints_of s"
  by (simp add: waypoints_of_def showToast_def)

lemma waypoints_of_renderWaypoints: "waypoints_of (renderWaypoints s) = waypoints_of s"
  by (simp add: waypoints_of_def renderWaypoints_def)

lemma waypoints_of_updateRouteStats: "waypoints_of (updateRouteStats s) = waypoints_of s"
  by (simp add: waypoints_of_def updateRouteStats_def)

lemma waypoints_of_updateRouteOnMap: "waypoints_of (updateRouteOnMap s) = waypoints_of s"
  by (simp add: waypoints_of_def updateRouteOnMap_def updateRouteStats_def Let_def)

text \<open>
  C8: \<open>clearRoute\<close> leaves an empty waypoint list, distance \<open>0\<close>, duration \<open>0\<close> and
  no geometry, and the transport mode it found.
\<close>

theorem clearRoute_resets:
  "waypoints_of (clearRoute s) = []
   \<and> route_distance (currentRoute (clearRoute s)) = Num 0
   \<and> route_duration (currentRoute (clearRoute s)) = Num 0
   \<and> route_geometry (currentRoute (clearRoute s)) = None
   \<and> transportMode (currentRoute (clearRoute s)) = transportMode (currentRoute s)"
  by (simp add: clearRoute_def Let_def showToast_def updateRouteStats_def renderWaypoints_def
      waypoints_of_def)

lemma getPoiById_id: "getPoiById pois poiId = Some p \<Longrightarrow> poi_id p = poiId"
  by (auto simp: getPoiById_def find_Some_iff)

lemma addWaypointFromPOI_present:
  assumes "\<exists>wp \<in> set (waypoints_of s). wp_id wp = poiId"
  shows "addWaypointFromPOI pois categories poiId s =
           (if getPoiById pois poiId = None then s else showToast AlreadyInRoute ''info'' s)"
  using assms by (auto simp: addWaypointFromPOI_def list_ex_iff split: option.splits)

lemma addWaypointFromPOI_waypoints:
  "waypoints_of (addWaypointFromPOI pois categories poiId s) = waypoints_of s
   \<or> (\<exists>wp. wp_id wp = poiId \<and> poiId \<notin> set (map wp_id (waypoints_of s))
        \<and> waypoints_of (addWaypointFromPOI pois categories poiId s) = waypoints_of s @ [wp])"
proof (cases "getPoiById pois poiId")
  case None
  then show ?thesis by (simp add: addWaypointFromPOI_def)
next
  case (Some p)
  show ?thesis
  proof (cases "list_ex (\<lambda>wp. wp_id wp = poiId) (waypoints_of s)")
    case True
    with Some show ?thesis by (simp add: addWaypointFromPOI_def waypoints_of_showToast)
  next
    case False
    then have n: "poiId \<notin> set (map wp_id (waypoints_of s))"
      by (auto simp: list_ex_iff)
    have "\<exists>wp. wp_id wp = poiId
        \<and> waypoints_of (addWaypointFromPOI pois categories poiId s) = waypoints_of s @ [wp]"
      using Some False getPoiById_id [OF Some]
      by (simp add: addWaypointFromPOI_def Let_def waypoints_of_showToast
          waypoints_of_updateRouteOnMap waypoints_of_renderWaypoints)
        (simp add: waypoints_of_def)
    with n show ?thesis by blast
  qed
qed

text \<open>
  C9: adding an identifier that a waypoint of the route already has leaves the
  waypoint list as it was, the only change being the toast (shown when the catalogue
  has the point); and an addition keeps the identifiers of the route distinct.
\<close>

theorem addWaypointFromPOI_unique:
  "((\<exists>wp \<in> set (waypoints_of s). wp_id wp = poiId) \<longrightarrow>
      waypoints_of (addWaypointFromPOI pois categories poiId s) = waypoints_of s
      \<and> addWaypointFromPOI pois categories poiId s =
          (if getPoiById pois poiId = None then s else showToast AlreadyInRoute ''info'' s))
   \<and> (distinct (map wp_id (waypoints_of s)) \<longrightarrow>
      distinct (map wp_id (waypoints_of (addWaypointFromPOI pois categories poiId s))))"
proof (intro conjI impI)
  assume a: "\<exists>wp \<in> set (waypoints_of s). wp_id wp = poiId"
  show "waypoints_of (addWaypointFromPOI pois categories poiId s) = waypoints_of s"
    by (simp add: addWaypointFromPOI_present [OF a] waypoints_of_showToast)
  show "addWaypointFromPOI pois categories poiId s =
          (if getPoiById pois poiId = None then s else showToast AlreadyInRoute ''info'' s)"
    by (rule addWaypointFromPOI_present [OF a])
next
  assume d: "distinct (map wp_id (waypoints_of s))"
  from addWaypointFromPOI_waypoints [of pois categories poiId s]
  show "distinct (map wp_id (waypoints_of (addWaypointFromPOI pois categories poiId s)))"
    using d by auto
qed

lemma one_stop_state:
  "arrays one_stop = (\<lambda>_. [])(0 := [gullfoss_wp])"
  "currentRoute one_stop = currentRoute initial_app"
  "pending one_stop = []"
  "calls one_stop = []"
  by (simp_all add: one_stop_def addWaypointFromPOI_def getPoiById_def getCategoryById_def
      example_pois_def example_categories_def initial_app_def waypoints_of_def Let_def
      showToast_def updateRouteOnMap_def renderWaypoints_def updateRouteStats_def gullfoss_wp_def)

lemma one_stop_waypoints: "waypoints_of one_stop = [gullfoss_wp]"
  by (simp add: waypoints_of_def one_stop_state initial_app_def)

theorem addWaypointFromPOI_unique_witness:
  "(\<exists>wp \<in> set (waypoints_of one_stop). wp_id wp = ''gullfoss'')
   \<and> waypoints_of (addWaypointFromPOI example_pois example_categories ''gullfoss'' one_stop)
       = [gullfoss_wp]
   \<and> addWaypointFromPOI example_pois example_categories ''gullfoss'' one_stop
       = showToast AlreadyInRoute ''info'' one_stop
   \<and> distinct (map wp_id (waypoints_of one_stop))
   \<and> distinct (map wp_id
        (waypoints_of (addWaypointFromPOI example_pois example_categories ''gullfoss'' one_stop)))"
proof -
  have e: "\<exists>wp \<in> set (waypoints_of one_stop). wp_id wp = ''gullfoss''"
    by (simp add: one_stop_waypoints gullfoss_wp_def)
  have d: "distinct (map wp_id (waypoints_of one_stop))"
    by (simp add: one_stop_waypoints)
  have g: "getPoiById example_pois ''gullfoss'' \<noteq> None"
    by (simp add: getPoiById_def example_pois_def)
  show ?thesis
    using addWaypointFromPOI_unique [of one_stop "''gullfoss''" example_pois example_categories]
      e d g
    by (auto simp: one_stop_waypoints waypoints_of_showToast)
qed

lemma two_stops_state:
  "arrays two_stops = (\<lambda>_. [])(0 := [gullfoss_wp, seljalandsfoss_wp])"
  "currentRoute two_stops = currentRoute initial_app"
  "pending two_stops =
     [\<lparr>p_waypoints = 0, p_coordinates = example_coordinates, p_mode = ''driving''\<rparr>]"
  "calls two_stops = [(example_coordinates, ''driving'')]"
  by (simp_all add: two_stops_def addWaypointFromPOI_def getPoiById_def getCategoryById_def
      example_pois_def example_categories_def one_stop_state one_stop_waypoints
      waypoints_of_def Let_def initial_app_def example_coordinates_def
      showToast_def updateRouteOnMap_def renderWaypoints_def updateRouteStats_def
      gullfoss_wp_def seljalandsfoss_wp_def)

lemma two_stops_waypoints: "waypoints_of two_stops = [gullfoss_wp, seljalandsfoss_wp]"
  by (simp add: waypoints_of_def two_stops_state initial_app_def)

lemma calculateRoute_example_answer:
  "2 \<le> length coords \<Longrightarrow>
   fst (calculateRoute ar (example_answer meters seconds) (Some coords) mode) =
     Inr \<lparr>distance = Num meters, duration = Num seconds, geometry = Some example_geometry,
          legs = [], waypoints = [], isFallback = False\<rparr>"
  by (simp add: calculateRoute_def example_answer_def primaryResult_def Let_def)

lemma calculateRoute_total:
  "2 \<le> length coords \<Longrightarrow> \<exists>r. fst (calculateRoute ar outcome (Some coords) mode) = Inr r"
  by (simp add: calculateRoute_def Let_def)

text \<open>What a resumed call leaves when its \<open>calculateRoute\<close> was fulfilled.\<close>

lemma updateRouteOnMap_resume_fulfilled:
  assumes "fst (calculateRoute ar outcome (Some (p_coordinates p)) (p_mode p)) = Inr r"
  shows "route_distance (currentRoute (updateRouteOnMap_resume ar p outcome s)) = distance r"
    and "route_duration (currentRoute (updateRouteOnMap_resume ar p outcome s)) = duration r"
    and "route_geometry (currentRoute (updateRouteOnMap_resume ar p outcome s)) = geometry r"
    and "shown_distance (updateRouteOnMap_resume ar p outcome s) = distance r"
    and "shown_duration (updateRouteOnMap_resume ar p outcome s) = duration r"
    and "transportMode (currentRoute (updateRouteOnMap_resume ar p outcome s))
           = transportMode (currentRoute s)"
    and "pending (updateRouteOnMap_resume ar p outcome s) = pending s"
    and "calls (updateRouteOnMap_resume ar p outcome s) = calls s"
    and "arrays (updateRouteOnMap_resume ar p outcome s) = arrays s"
    and "route_waypoints (currentRoute (updateRouteOnMap_resume ar p outcome s))
           = route_waypoints (currentRoute s)"
  using assms
  by (simp_all add: updateRouteOnMap_resume_def Let_def updateRouteStats_def
      split: option.splits)

lemma updateRouteOnMap_suspends:
  assumes "2 \<le> length (waypoints_of s)"
  shows "pending (updateRouteOnMap s) = pending s @
           [\<lparr>p_waypoints = route_waypoints (currentRoute s),
             p_coordinates = map coordinates (waypoints_of s),
             p_mode = transportMode (currentRoute s)\<rparr>]"
    and "calls (updateRouteOnMap s) = calls s @
           [(map coordinates (waypoints_of s), transportMode (currentRoute s))]"
    and "currentRoute (updateRouteOnMap s) = currentRoute s"
    and "arrays (updateRouteOnMap s) = arrays s"
    and "shown_distance (updateRouteOnMap s) = shown_distance s"
    and "shown_duration (updateRouteOnMap s) = shown_duration s"
  using assms by (simp_all add: updateRouteOnMap_def Let_def waypoints_of_def)

lemma updateRouteOnMap_below_two:
  assumes "length (waypoints_of s) < 2"
  shows "route_distance (currentRoute (updateRouteOnMap s)) = Num 0"
    and "route_duration (currentRoute (updateRouteOnMap s)) = Num 0"
    and "route_geometry (currentRoute (updateRouteOnMap s)) = route_geometry (currentRoute s)"
    and "shown_distance (updateRouteOnMap s) = Num 0"
    and "shown_duration (updateRouteOnMap s) = Num 0"
    and "routeLine (map_of_app (updateRouteOnMap s)) = None"
    and "calls (updateRouteOnMap s) = calls s"
    and "pending (updateRouteOnMap s) = pending s"
  using assms
  by (simp_all add: updateRouteOnMap_def Let_def waypoints_of_def updateRouteStats_def
      map_clearRoute_def)

lemma removeWaypoint_below_two:
  assumes "length (splice_one index (waypoints_of s)) < 2"
  shows "route_distance (currentRoute (removeWaypoint index s)) = Num 0"
    and "route_duration (currentRoute (removeWaypoint index s)) = Num 0"
    and "shown_distance (removeWaypoint index s) = Num 0"
    and "shown_duration (removeWaypoint index s) = Num 0"
    and "routeLine (map_of_app (removeWaypoint index s)) = None"
    and "calls (removeWaypoint index s) = calls s"
    and "pending (removeWaypoint index s) = pending s"
    and "route_geometry (currentRoute (removeWaypoint index s)) = route_geometry (currentRoute s)"
    and "waypoints_of (removeWaypoint index s) = splice_one index (waypoints_of s)"
proof -
  define s1 where "s1 = renderWaypoints (s\<lparr>arrays := (arrays s)(route_waypoints (currentRoute s) :=
      splice_one index (arrays s (route_waypoints (currentRoute s))))\<rparr>)"
  have r: "removeWaypoint index s = updateRouteOnMap s1"
    by (simp add: removeWaypoint_def Let_def s1_def)
  have w: "waypoints_of s1 = splice_one index (waypoints_of s)"
    by (simp add: s1_def waypoints_of_renderWaypoints) (simp add: waypoints_of_def)
  have l: "length (waypoints_of s1) < 2" using assms w by simp
  have c: "currentRoute s1 = currentRoute s" "calls s1 = calls s" "pending s1 = pending s"
    by (simp_all add: s1_def renderWaypoints_def)
  show "route_distance (currentRoute (removeWaypoint index s)) = Num 0"
    and "route_duration (currentRoute (removeWaypoint index s)) = Num 0"
    and "shown_distance (removeWaypoint index s) = Num 0"
    and "shown_duration (removeWaypoint index s) = Num 0"
    and "routeLine (map_of_app (removeWaypoint index s)) = None"
    and "calls (removeWaypoint index s) = calls s"
    and "pending (removeWaypoint index s) = pending s"
    and "route_geometry (currentRoute (removeWaypoint index s)) = route_geometry (currentRoute s)"
    and "waypoints_of (removeWaypoint index s) = splice_one index (waypoints_of s)"
    unfolding r using updateRouteOnMap_below_two [OF l] c w
    by (simp_all add: waypoints_of_updateRouteOnMap)
qed

lemma route_ready_state:
  "waypoints_of (route_ready ar) = [gullfoss_wp, seljalandsfoss_wp]"
  "route_distance (currentRoute (route_ready ar)) = Num 125000"
  "route_duration (currentRoute (route_ready ar)) = Num 5400"
  "route_geometry (currentRoute (route_ready ar)) = Some example_geometry"
  "calls (route_ready ar) = [(example_coordinates, ''driving'')]"
  "pending (route_ready ar) = []"
proof -
  let ?p = "\<lparr>p_waypoints = 0, p_coordinates = example_coordinates, p_mode = ''driving''\<rparr>"
  have s: "route_ready ar = updateRouteOnMap_resume ar ?p (example_answer 125000 5400)
      (two_stops\<lparr>pending := []\<rparr>)"
    by (simp add: route_ready_def settle_def two_stops_state)
  have c: "fst (calculateRoute ar (example_answer 125000 5400) (Some (p_coordinates ?p)) (p_mode ?p))
      = Inr \<lparr>distance = Num 125000, duration = Num 5400, geometry = Some example_geometry,
          legs = [], waypoints = [], isFallback = False\<rparr>"
    by (rule calculateRoute_example_answer) (simp add: example_coordinates_def)
  note f = updateRouteOnMap_resume_fulfilled [OF c, of "two_stops\<lparr>pending := []\<rparr>"]
  show "waypoints_of (route_ready ar) = [gullfoss_wp, seljalandsfoss_wp]"
    using two_stops_waypoints f(9,10) by (simp add: s waypoints_of_def)
  show "route_distance (currentRoute (route_ready ar)) = Num 125000" using f(1) by (simp add: s)
  show "route_duration (currentRoute (route_ready ar)) = Num 5400" using f(2) by (simp add: s)
  show "route_geometry (currentRoute (route_ready ar)) = Some example_geometry"
    using f(3) by (simp add: s)
  show "calls (route_ready ar) = [(example_coordinates, ''driving'')]"
    using f(8) by (simp add: s two_stops_state)
  show "pending (route_ready ar) = []" using f(7) by (simp add: s)
qed

text \<open>
  C7: at a route of two waypoints with a computed geometry, removing the first
  waypoint leaves one waypoint, sets distance and duration to \<open>0\<close> and calls the
  calculator no further, but the geometry of the route stays the computed one: it is
  not reset to its empty value.
\<close>

theorem removeWaypoint_keeps_geometry:
  "length (waypoints_of (route_ready ar)) = 2
   \<and> waypoints_of (removeWaypoint 0 (route_ready ar)) = [seljalandsfoss_wp]
   \<and> route_distance (currentRoute (removeWaypoint 0 (route_ready ar))) = Num 0
   \<and> route_duration (currentRoute (removeWaypoint 0 (route_ready ar))) = Num 0
   \<and> calls (removeWaypoint 0 (route_ready ar)) = calls (route_ready ar)
   \<and> route_geometry (currentRoute (removeWaypoint 0 (route_ready ar))) = Some example_geometry
   \<and> route_geometry (currentRoute (removeWaypoint 0 (route_ready ar))) \<noteq> None"
proof -
  have sp: "splice_one 0 (waypoints_of (route_ready ar)) = [seljalandsfoss_wp]"
    by (simp add: route_ready_state splice_one_def Let_def)
  then have l: "length (splice_one 0 (waypoints_of (route_ready ar))) < 2" by simp
  show ?thesis
    using removeWaypoint_below_two [OF l] sp by (simp add: route_ready_state)
qed

lemma settle_fulfilled:
  assumes "k < length (pending s)"
    and "fst (calculateRoute ar outcome (Some (p_coordinates (pending s ! k)))
               (p_mode (pending s ! k))) = Inr r"
  shows "shown_distance (settle ar k outcome s) = distance r"
    and "shown_duration (settle ar k outcome s) = duration r"
    and "pending (settle ar k outcome s) = take k (pending s) @ drop (k + 1) (pending s)"
    and "transportMode (currentRoute (settle ar k outcome s)) = transportMode (currentRoute s)"
proof -
  let ?s = "s\<lparr>pending := take k (pending s) @ drop (k + 1) (pending s)\<rparr>"
  have e: "settle ar k outcome s = updateRouteOnMap_resume ar (pending s ! k) outcome ?s"
    using assms(1) by (simp add: settle_def)
  note f = updateRouteOnMap_resume_fulfilled [OF assms(2), of ?s]
  show "shown_distance (settle ar k outcome s) = distance r" using f(4) by (simp add: e)
  show "shown_duration (settle ar k outcome s) = duration r" using f(5) by (simp add: e)
  show "pending (settle ar k outcome s) = take k (pending s) @ drop (k + 1) (pending s)"
    using f(7) by (simp add: e)
  show "transportMode (currentRoute (settle ar k outcome s)) = transportMode (currentRoute s)"
    using f(6) by (simp add: e)
qed

lemma setTransportMode_suspends:
  assumes "2 \<le> length (waypoints_of s)"
  shows "pending (setTransportMode mode s) = pending s @
           [\<lparr>p_waypoints = route_waypoints (currentRoute s),
             p_coordinates = map coordinates (waypoints_of s),
             p_mode = mode\<rparr>]"
    and "transportMode (currentRoute (setTransportMode mode s)) = mode"
proof -
  let ?s1 = "s\<lparr>currentRoute := (currentRoute s)\<lparr>transportMode := mode\<rparr>\<rparr>"
  have w: "waypoints_of ?s1 = waypoints_of s" by (simp add: waypoints_of_def)
  then have l: "2 \<le> length (waypoints_of ?s1)" using assms by simp
  have e: "setTransportMode mode s = updateRouteOnMap ?s1"
    using l by (simp add: setTransportMode_def Let_def)
  show "pending (setTransportMode mode s) = pending s @
           [\<lparr>p_waypoints = route_waypoints (currentRoute s),
             p_coordinates = map coordinates (waypoints_of s),
             p_mode = mode\<rparr>]"
    unfolding e updateRouteOnMap_suspends(1) [OF l] w by simp
  show "transportMode (currentRoute (setTransportMode mode s)) = mode"
    unfolding e updateRouteOnMap_suspends(3) [OF l] by simp
qed

lemma two_in_flight:
  assumes "pending s = [p, q]"
    and "fst (calculateRoute ar p_outcome (Some (p_coordinates p)) (p_mode p)) = Inr rp"
    and "fst (calculateRoute ar q_outcome (Some (p_coordinates q)) (p_mode q)) = Inr rq"
  shows "shown_distance (settle ar 0 q_outcome (settle ar 0 p_outcome s)) = distance rq"
    and "shown_duration (settle ar 0 q_outcome (settle ar 0 p_outcome s)) = duration rq"
    and "shown_distance (settle ar 0 p_outcome (settle ar 1 q_outcome s)) = distance rp"
    and "shown_duration (settle ar 0 p_outcome (settle ar 1 q_outcome s)) = duration rp"
    and "transportMode (currentRoute (settle ar 0 p_outcome (settle ar 1 q_outcome s)))
           = transportMode (currentRoute s)"
proof -
  have k0: "0 < length (pending s)" and k1: "1 < length (pending s)"
    using assms(1) by simp_all
  have p0: "fst (calculateRoute ar p_outcome (Some (p_coordinates (pending s ! 0)))
               (p_mode (pending s ! 0))) = Inr rp"
    using assms(1,2) by simp
  have q1: "fst (calculateRoute ar q_outcome (Some (p_coordinates (pending s ! 1)))
               (p_mode (pending s ! 1))) = Inr rq"
    using assms(1,3) by simp
  have a: "pending (settle ar 0 p_outcome s) = [q]"
    using settle_fulfilled(3) [OF k0 p0] assms(1) by simp
  have b: "pending (settle ar 1 q_outcome s) = [p]"
    using settle_fulfilled(3) [OF k1 q1] assms(1) by simp
  have ka: "0 < length (pending (settle ar 0 p_outcome s))" by (simp add: a)
  have kb: "0 < length (pending (settle ar 1 q_outcome s))" unfolding b by simp
  have qa: "fst (calculateRoute ar q_outcome
               (Some (p_coordinates (pending (settle ar 0 p_outcome s) ! 0)))
               (p_mode (pending (settle ar 0 p_outcome s) ! 0))) = Inr rq"
    using assms(3) by (simp add: a)
  have pb: "fst (calculateRoute ar p_outcome
               (Some (p_coordinates (pending (settle ar 1 q_outcome s) ! 0)))
               (p_mode (pending (settle ar 1 q_outcome s) ! 0))) = Inr rp"
    unfolding b using assms(2) by simp
  show "shown_distance (settle ar 0 q_outcome (settle ar 0 p_outcome s)) = distance rq"
    by (rule settle_fulfilled(1) [OF ka qa])
  show "shown_duration (settle ar 0 q_outcome (settle ar 0 p_outcome s)) = duration rq"
    by (rule settle_fulfilled(2) [OF ka qa])
  show "shown_distance (settle ar 0 p_outcome (settle ar 1 q_outcome s)) = distance rp"
    by (rule settle_fulfilled(1) [OF kb pb])
  show "shown_duration (settle ar 0 p_outcome (settle ar 1 q_outcome s)) = duration rp"
    by (rule settle_fulfilled(2) [OF kb pb])
  show "transportMode (currentRoute (settle ar 0 p_outcome (settle ar 1 q_outcome s)))
           = transportMode (currentRoute s)"
    using settle_fulfilled(4) [OF kb pb] settle_fulfilled(4) [OF k1 q1] by simp
qed

text \<open>
  C10, for both interleavings: when the mode is changed while one computation is in
  flight, the distance and duration displayed after both computations have settled
  are those of the computation that settled last: of the new mode when the superseded
  computation settles first, of the superseded computation when it settles last.
\<close>

theorem setTransportMode_last_settled_wins:
  assumes "2 \<le> length (waypoints_of s)" and "pending s = [p]"
    and "2 \<le> length (p_coordinates p)"
  shows "(\<exists>r. fst (calculateRoute ar new_outcome (Some (map coordinates (waypoints_of s))) mode)
              = Inr r
            \<and> shown_distance (settle ar 0 new_outcome (settle ar 0 old_outcome
                 (setTransportMode mode s))) = distance r
            \<and> shown_duration (settle ar 0 new_outcome (settle ar 0 old_outcome
                 (setTransportMode mode s))) = duration r)
         \<and> (\<exists>r. fst (calculateRoute ar old_outcome (Some (p_coordinates p)) (p_mode p)) = Inr r
            \<and> shown_distance (settle ar 0 old_outcome (settle ar 1 new_outcome
                 (setTransportMode mode s))) = distance r
            \<and> shown_duration (settle ar 0 old_outcome (settle ar 1 new_outcome
                 (setTransportMode mode s))) = duration r)"
proof -
  let ?q = "\<lparr>p_waypoints = route_waypoints (currentRoute s),
             p_coordinates = map coordinates (waypoints_of s),
             p_mode = mode\<rparr>"
  have pq: "pending (setTransportMode mode s) = [p, ?q]"
    using setTransportMode_suspends(1) [OF assms(1), of mode] assms(2) by simp
  obtain rp where rp: "fst (calculateRoute ar old_outcome (Some (p_coordinates p)) (p_mode p)) = Inr rp"
    using calculateRoute_total [OF assms(3)] by blast
  have "2 \<le> length (map coordinates (waypoints_of s))" using assms(1) by simp
  then obtain rq where rq:
    "fst (calculateRoute ar new_outcome (Some (map coordinates (waypoints_of s))) mode) = Inr rq"
    using calculateRoute_total by blast
  have rq': "fst (calculateRoute ar new_outcome (Some (p_coordinates ?q)) (p_mode ?q)) = Inr rq"
    using rq by simp
  note t = two_in_flight [OF pq rp rq']
  show ?thesis using rp rq t(1-4) by blast
qed

lemma mode_changed_state:
  "pending mode_changed =
     [\<lparr>p_waypoints = 0, p_coordinates = example_coordinates, p_mode = ''driving''\<rparr>,
      \<lparr>p_waypoints = 0, p_coordinates = example_coordinates, p_mode = ''walking''\<rparr>]"
  "transportMode (currentRoute mode_changed) = ''walking''"
proof -
  have l: "2 \<le> length (waypoints_of two_stops)" by (simp add: two_stops_waypoints)
  show "pending mode_changed =
     [\<lparr>p_waypoints = 0, p_coordinates = example_coordinates, p_mode = ''driving''\<rparr>,
      \<lparr>p_waypoints = 0, p_coordinates = example_coordinates, p_mode = ''walking''\<rparr>]"
    unfolding mode_changed_def setTransportMode_suspends(1) [OF l]
    by (simp add: two_stops_state two_stops_waypoints initial_app_def example_coordinates_def
        gullfoss_wp_def seljalandsfoss_wp_def)
  show "transportMode (currentRoute mode_changed) = ''walking''"
    unfolding mode_changed_def by (rule setTransportMode_suspends(2) [OF l])
qed

text \<open>
  C10 does not hold in every interleaving: the driving computation is in flight, the
  mode becomes walking, the walking computation settles first and the driving one
  last. The mode is walking and the panel shows the driving distance and duration.
\<close>

theorem setTransportMode_stale_counterexample:
  "transportMode (currentRoute
      (settle ideal 0 (example_answer 125000 5400)
        (settle ideal 1 (example_answer 110000 86400) mode_changed))) = ''walking''
   \<and> fst (calculateRoute ideal (example_answer 110000 86400) (Some example_coordinates) ''walking'')
       = Inr \<lparr>distance = Num 110000, duration = Num 86400, geometry = Some example_geometry,
              legs = [], waypoints = [], isFallback = False\<rparr>
   \<and> shown_distance
       (settle ideal 0 (example_answer 125000 5400)
         (settle ideal 1 (example_answer 110000 86400) mode_changed)) = Num 125000
   \<and> shown_duration
       (settle ideal 0 (example_answer 125000 5400)
         (settle ideal 1 (example_answer 110000 86400) mode_changed)) = Num 5400"
proof -
  have l: "2 \<le> length example_coordinates" by (simp add: example_coordinates_def)
  let ?p = "\<lparr>p_waypoints = 0, p_coordinates = example_coordinates, p_mode = ''driving''\<rparr>"
  let ?q = "\<lparr>p_waypoints = 0, p_coordinates = example_coordinates, p_mode = ''walking''\<rparr>"
  have pq: "pending mode_changed = [?p, ?q]" by (rule mode_changed_state(1))
  have rp: "fst (calculateRoute ideal (example_answer 125000 5400) (Some (p_coordinates ?p)) (p_mode ?p))
      = Inr \<lparr>distance = Num 125000, duration = Num 5400, geometry = Some example_geometry,
              legs = [], waypoints = [], isFallback = False\<rparr>"
    using calculateRoute_example_answer [OF l] by simp
  have rq: "fst (calculateRoute ideal (example_answer 110000 86400) (Some (p_coordinates ?q)) (p_mode ?q))
      = Inr \<lparr>distance = Num 110000, duration = Num 86400, geometry = Some example_geometry,
              legs = [], waypoints = [], isFallback = False\<rparr>"
    using calculateRoute_example_answer [OF l] by simp
  note t = two_in_flight [OF pq rp rq]
  show ?thesis
    using t(3,4,5) rq by (simp add: mode_changed_state(2))
qed

theorem setTransportMode_last_settled_wins_witness:
  "2 \<le> length (waypoints_of two_stops)
   \<and> pending two_stops =
       [\<lparr>p_waypoints = 0, p_coordinates = example_coordinates, p_mode = ''driving''\<rparr>]
   \<and> 2 \<le> length example_coordinates
   \<and> shown_duration (settle ideal 0 (example_answer 110000 86400)
        (settle ideal 0 (example_answer 125000 5400) (setTransportMode ''walking'' two_stops))) = Num 86400
   \<and> shown_duration (settle ideal 0 (example_answer 125000 5400)
        (settle ideal 1 (example_answer 110000 86400) (setTransportMode ''walking'' two_stops))) = Num 5400"
proof -
  let ?p = "\<lparr>p_waypoints = 0, p_coordinates = example_coordinates, p_mode = ''driving''\<rparr>"
  have a: "2 \<le> length (waypoints_of two_stops)" by (simp add: two_stops_waypoints)
  have b: "pending two_stops = [?p]" by (rule two_stops_state(3))
  have c: "2 \<le> length (p_coordinates ?p)" by (simp add: example_coordinates_def)
  have m: "map coordinates (waypoints_of two_stops) = example_coordinates"
    by (simp add: two_stops_waypoints gullfoss_wp_def seljalandsfoss_wp_def
        example_coordinates_def)
  have l: "2 \<le> length example_coordinates" by (simp add: example_coordinates_def)
  show ?thesis
    using setTransportMode_last_settled_wins [OF a b c,
        where new_outcome = "example_answer 110000 86400" and mode = "''walking''"
          and old_outcome = "example_answer 125000 5400" and ar = ideal]
      a b l
    by (simp add: m calculateRoute_example_answer [OF l])
qed

end
